theory Spec2Isabelle
  imports Complex_Main "HOL-Library.Word"
begin

section \<open>SoundWaveFactory (hw_numpy.py): a shallow embedding\<close>

text \<open>
  The module is one class, \<open>SoundWaveFactory\<close>, over numpy arrays. The embedding keeps
  the names of the source. In synthesis a float sample is a real number (the sine is
  bounded, so nothing there overflows). In normalization a float64 sample is an
  \<open>npfloat\<close>: a finite number, an infinity or \<open>nan\<close>, with the overflow of float64
  arithmetic; rounding is not modelled. Python exceptions are values of \<open>error\<close>; files
  are entries of a map from paths to contents.
\<close>

subsection \<open>Errors\<close>

datatype error =
    KeyError string          \<comment> \<open>\<open>self.NOTES[note]\<close> on a missing key\<close>
  | ValueError               \<comment> \<open>\<open>min([])\<close>, a reduction of a zero-size array, a malformed text file\<close>
  | FileNotFoundError string \<comment> \<open>\<open>np.loadtxt\<close> on a missing path\<close>

subsection \<open>Class constants\<close>

definition SAMPLING_RATE :: nat where
  "SAMPLING_RATE = 44100"

definition DURATION_SECONDS :: nat where
  "DURATION_SECONDS = 5"

definition SOUND_ARRAY_LEN :: nat where
  "SOUND_ARRAY_LEN = SAMPLING_RATE * DURATION_SECONDS"

definition MAX_AMPLITUDE :: real where
  "MAX_AMPLITUDE = 2 ^ 13"

text \<open>The dict literal \<open>NOTES\<close>, entry by entry in the order of the source.\<close>

definition NOTES_items :: "(string \<times> real) list" where
  "NOTES_items =
    [(''0'', 0), (''e0'', 20.60172), (''f0'', 21.82676), (''f#0'', 23.12465), (''g0'', 24.49971), (''g#0'', 25.95654), (''a0'', 27.50000), (''a#0'', 29.13524),
     (''b0'', 30.86771), (''c0'', 32.70320), (''c#0'', 34.64783), (''d0'', 36.70810), (''d#0'', 38.89087),
     (''e1'', 41.20344), (''f1'', 43.65353), (''f#1'', 46.24930), (''g1'', 48.99943), (''g#1'', 51.91309), (''a1'', 55.00000), (''a#1'', 58.27047),
     (''b1'', 61.73541), (''c1'', 65.40639), (''c#1'', 69.29566), (''d1'', 73.41619), (''d#1'', 77.78175),
     (''e2'', 82.40689), (''f2'', 87.30706), (''f#2'', 92.49861), (''g2'', 97.99886), (''g#2'', 103.8262), (''a2'', 110.0000), (''a#2'', 116.5409),
     (''b2'', 123.4708), (''c2'', 130.8128), (''c#2'', 138.5913), (''d2'', 146.8324), (''d#2'', 155.5635),
     (''e3'', 164.8138), (''f3'', 174.6141), (''f#3'', 184.9972), (''g3'', 195.9977), (''g#3'', 207.6523), (''a3'', 220.0000), (''a#3'', 233.0819),
     (''b3'', 246.9417), (''c3'', 261.6256), (''c#3'', 277.1826), (''d3'', 293.6648), (''d#3'', 311.1270),
     (''e4'', 329.6276), (''f4'', 349.2282), (''f#4'', 369.9944), (''g4'', 391.9954), (''g#4'', 415.3047), (''a4'', 440.0000), (''a#4'', 466.1638),
     (''b4'', 493.8833), (''c4'', 523.2511), (''c#4'', 554.3653), (''d4'', 587.3295), (''d#4'', 622.2540),
     (''e5'', 659.2551), (''f5'', 698.4565), (''f#5'', 739.9888), (''g5'', 783.9909), (''g#5'', 830.6094), (''a5'', 880.0000), (''a#5'', 932.3275),
     (''b5'', 987.7666), (''c5'', 1046.502), (''c#5'', 1108.731), (''d5'', 1174.659), (''d#5'', 1244.508),
     (''e6'', 1318.510), (''f6'', 1396.913), (''f#6'', 1479.978), (''g6'', 1567.982), (''g#6'', 1661.219), (''a6'', 1760.000), (''a#6'', 1864.655),
     (''b6'', 1975.533), (''c6'', 2093.005), (''c#6'', 2217.461), (''d6'', 2349.318), (''d#6'', 2489.016),
     (''e7'', 2637.020), (''f7'', 2793.826), (''f#7'', 2959.955), (''g7'', 3135.963), (''g#7'', 3322.438), (''a7'', 3520.000), (''a#7'', 3729.310),
     (''b7'', 3951.066), (''c7'', 4186.009), (''c#7'', 4434.922), (''d7'', 4698.636), (''d#7'', 4978.032)]"

text \<open>
  The dict itself. A Python dict literal keeps the last value of a repeated key;
  \<open>map_of\<close> keeps the first, so the list is reversed (the keys turn out distinct).
\<close>

definition NOTES :: "string \<rightharpoonup> real" where
  "NOTES = map_of (rev NOTES_items)"

subsection \<open>The default timeline\<close>

text \<open>
  \<open>np.linspace(start, stop, num)\<close> with the endpoint included: \<open>num\<close> samples with
  step \<open>(stop - start) / (num - 1)\<close>, the last one set to \<open>stop\<close>; one sample
  \<open>start\<close> when \<open>num = 1\<close>, none when \<open>num = 0\<close>.
\<close>

definition linspace :: "real \<Rightarrow> real \<Rightarrow> nat \<Rightarrow> real list" where
  "linspace start stop num =
     (if num = 0 then []
      else if num = 1 then [start]
      else (map (\<lambda>i. start + real i * ((stop - start) / real (num - 1))) [0..<num])
             [num - 1 := stop])"

definition common_timeline :: "real list" where
  "common_timeline = linspace 0 (real DURATION_SECONDS) SOUND_ARRAY_LEN"

subsection \<open>Synthesis\<close>

definition get_normed_sin :: "real list \<Rightarrow> real \<Rightarrow> real list" where
  "get_normed_sin timeline frequency =
     map (\<lambda>t. MAX_AMPLITUDE * sin (2 * pi * frequency * t)) timeline"

definition get_soundwave :: "real list \<Rightarrow> string \<Rightarrow> error + real list" where
  "get_soundwave timeline note =
     (case NOTES note of
        None \<Rightarrow> Inl (KeyError note)
      | Some frequency \<Rightarrow> Inr (get_normed_sin timeline frequency))"

text \<open>
  \<open>astype(np.int16)\<close> on a float: the value is truncated towards zero and stored in
  16 bits (two's complement, read back with \<open>sint\<close>). A value outside the range of
  int16 keeps its low 16 bits, as the C cast does on the usual platforms.
\<close>

definition trunc_toward_zero :: "real \<Rightarrow> int" where
  "trunc_toward_zero x = (if 0 \<le> x then \<lfloor>x\<rfloor> else \<lceil>x\<rceil>)"

definition astype_int16 :: "real \<Rightarrow> 16 word" where
  "astype_int16 x = word_of_int (trunc_toward_zero x)"

subsection \<open>Files\<close>

text \<open>
  A WAV file holds its sampling rate and its 16-bit samples. A text file written by
  \<open>np.savetxt\<close> holds one sample per line in the format \<open>%.18e\<close>; 19 significant
  digits determine a float64, so the content of the file is the list of the samples.
\<close>

datatype file_content = WavFile nat "16 word list" | TxtFile "real list"

type_synonym filesystem = "string \<rightharpoonup> file_content"

text \<open>\<open>str.replace("#", "s")\<close>: every \<open>#\<close> becomes \<open>s\<close>.\<close>

definition replace_hash :: "string \<Rightarrow> string" where
  "replace_hash s = map (\<lambda>c. if c = CHR ''#'' then CHR ''s'' else c) s"

text \<open>
  \<open>create_note\<close> returns the quantized wave and writes it with \<open>wavfile.write\<close>;
  the file system is passed in and returned. A missing key raises before anything is
  written. The defaults \<open>name=None\<close> and \<open>timeline=None\<close> are the \<open>None\<close> of the
  two optional arguments; the default note is \<open>"a4"\<close>.
\<close>

definition create_note ::
  "string \<Rightarrow> string option \<Rightarrow> real list option \<Rightarrow> filesystem
     \<Rightarrow> error + (16 word list \<times> filesystem)" where
  "create_note note name timeline fs =
     (let timeline = (case timeline of None \<Rightarrow> common_timeline | Some t \<Rightarrow> t) in
      case get_soundwave timeline note of
        Inl e \<Rightarrow> Inl e
      | Inr wave \<Rightarrow>
          let sound_wave = map astype_int16 wave;
              file_name = (case name of
                             None \<Rightarrow> replace_hash (note @ ''_sin.wav'')
                           | Some n \<Rightarrow> n @ ''.wav'')
          in Inr (sound_wave, fs(file_name \<mapsto> WavFile SAMPLING_RATE sound_wave)))"






subsection \<open>Float results that may leave the finite numbers\<close>

text \<open>
  A float64 is a finite number, an infinity or \<open>nan\<close>. An arithmetic operation returns
  its exact result rounded to the nearest float64. Rounding inside the finite range is
  not modelled (the result is the exact one); overflow is: the largest float64 is
  \<open>2^1024 - 2^971\<close>, and an exact result of magnitude \<open>2^1024 - 2^970\<close> or more rounds
  to an infinity.
\<close>

datatype npfloat = Fin real | PInf | NInf | NaN

definition FLOAT64_OVERFLOW :: real where
  "FLOAT64_OVERFLOW = 2 ^ 1024 - 2 ^ 970"

definition float64_result :: "real \<Rightarrow> npfloat" where
  "float64_result r =
     (if FLOAT64_OVERFLOW \<le> r then PInf
      else if r \<le> - FLOAT64_OVERFLOW then NInf
      else Fin r)"

text \<open>
  numpy divides by zero without raising: the quotient is \<open>nan\<close> or an infinity (and a
  \<open>RuntimeWarning\<close> is printed). Signed zeros are not told apart: a zero divisor counts
  as \<open>+0.0\<close>, which is what \<open>x - x\<close> gives. An operation on a \<open>nan\<close>, the difference
  of equal infinities and the quotient of two infinities are \<open>nan\<close>.
\<close>

fun np_less :: "npfloat \<Rightarrow> npfloat \<Rightarrow> bool" where
  "np_less (Fin a) (Fin b) = (a < b)"
| "np_less (Fin a) PInf = True"
| "np_less NInf (Fin b) = True"
| "np_less NInf PInf = True"
| "np_less _ _ = False"

definition np_minimum :: "npfloat \<Rightarrow> npfloat \<Rightarrow> npfloat" where
  "np_minimum a b = (if a = NaN then a else if b = NaN then b else if np_less b a then b else a)"

definition np_maximum :: "npfloat \<Rightarrow> npfloat \<Rightarrow> npfloat" where
  "np_maximum a b = (if a = NaN then a else if b = NaN then b else if np_less a b then b else a)"

fun np_subtract :: "npfloat \<Rightarrow> npfloat \<Rightarrow> npfloat" where
  "np_subtract (Fin a) (Fin b) = float64_result (a - b)"
| "np_subtract (Fin a) PInf = NInf"
| "np_subtract (Fin a) NInf = PInf"
| "np_subtract PInf (Fin b) = PInf"
| "np_subtract PInf NInf = PInf"
| "np_subtract NInf (Fin b) = NInf"
| "np_subtract NInf PInf = NInf"
| "np_subtract _ _ = NaN"

fun np_divide :: "npfloat \<Rightarrow> npfloat \<Rightarrow> npfloat" where
  "np_divide (Fin a) (Fin b) =
     (if b = 0 then (if a = 0 then NaN else if 0 < a then PInf else NInf)
      else float64_result (a / b))"
| "np_divide (Fin a) PInf = Fin 0"
| "np_divide (Fin a) NInf = Fin 0"
| "np_divide PInf (Fin b) = (if 0 \<le> b then PInf else NInf)"
| "np_divide NInf (Fin b) = (if 0 \<le> b then NInf else PInf)"
| "np_divide _ _ = NaN"

text \<open>
  \<open>np.min\<close> and \<open>np.max\<close> of all the elements of an array: a zero-size array raises
  ValueError, a \<open>nan\<close> element makes the result \<open>nan\<close>.
\<close>

fun np_amin :: "npfloat list \<Rightarrow> error + npfloat" where
  "np_amin [] = Inl ValueError"
| "np_amin (x # xs) = Inr (foldl np_minimum x xs)"

fun np_amax :: "npfloat list \<Rightarrow> error + npfloat" where
  "np_amax [] = Inl ValueError"
| "np_amax (x # xs) = Inr (foldl np_maximum x xs)"

text \<open>Python's builtin \<open>min\<close> on a list of lengths: ValueError on the empty list.\<close>

fun py_min :: "nat list \<Rightarrow> error + nat" where
  "py_min [] = Inl ValueError"
| "py_min (n # ns) = Inr (foldl min n ns)"

subsection \<open>Normalization\<close>

text \<open>
  \<open>normalize_waves(*waves)\<close> on the values of the arrays. The list of trimmed waves
  becomes one 2-dimensional array inside \<open>np.min\<close> and \<open>np.max\<close>, whose elements
  are those of the concatenation.
\<close>

definition normalize_waves :: "npfloat list list \<Rightarrow> error + npfloat list list" where
  "normalize_waves waves =
     (case py_min (map length waves) of
        Inl e \<Rightarrow> Inl e
      | Inr min_length_wave \<Rightarrow>
          (let trimmed_waves = map (take min_length_wave) waves in
           (case np_amin (concat trimmed_waves) of
              Inl e \<Rightarrow> Inl e
            | Inr min_amplitude \<Rightarrow>
                (case np_amax (concat trimmed_waves) of
                   Inl e \<Rightarrow> Inl e
                 | Inr max_amplitude \<Rightarrow>
                     Inr (map (map (\<lambda>x. np_divide (np_subtract x min_amplitude)
                                               (np_subtract max_amplitude min_amplitude)))
                              trimmed_waves)))))"

subsection \<open>Normalization of int16 arrays\<close>

text \<open>
  \<open>create_note\<close> returns arrays of dtype int16, and \<open>normalize_waves\<close> takes them as
  well. On that dtype \<open>np.min\<close> and \<open>np.max\<close> return an int16, both subtractions are
  int16 subtractions, which wrap around modulo \<open>2^16\<close>, and \<open>/\<close> is the true division
  of the two integers, a float64. (A call that mixes the two dtypes is not modelled.)
\<close>

fun np_amin_int16 :: "16 word list \<Rightarrow> error + 16 word" where
  "np_amin_int16 [] = Inl ValueError"
| "np_amin_int16 (x # xs) = Inr (foldl (\<lambda>a b. if sint b < sint a then b else a) x xs)"

fun np_amax_int16 :: "16 word list \<Rightarrow> error + 16 word" where
  "np_amax_int16 [] = Inl ValueError"
| "np_amax_int16 (x # xs) = Inr (foldl (\<lambda>a b. if sint a < sint b then b else a) x xs)"

definition normalize_waves_int16 :: "16 word list list \<Rightarrow> error + npfloat list list" where
  "normalize_waves_int16 waves =
     (case py_min (map length waves) of
        Inl e \<Rightarrow> Inl e
      | Inr min_length_wave \<Rightarrow>
          (let trimmed_waves = map (take min_length_wave) waves in
           (case np_amin_int16 (concat trimmed_waves) of
              Inl e \<Rightarrow> Inl e
            | Inr min_amplitude \<Rightarrow>
                (case np_amax_int16 (concat trimmed_waves) of
                   Inl e \<Rightarrow> Inl e
                 | Inr max_amplitude \<Rightarrow>
                     Inr (map (map (\<lambda>x. np_divide
                                          (Fin (real_of_int (sint (x - min_amplitude))))
                                          (Fin (real_of_int (sint (max_amplitude - min_amplitude))))))
                              trimmed_waves)))))"

subsection \<open>Normalization on a store of arrays\<close>

text \<open>
  The same method with the arrays as objects: the store is the list of the buffers
  allocated so far and an array reference is an index into it. A basic slice
  \<open>wave[:k]\<close> is a view on the buffer of \<open>wave\<close>, not a copy; \<open>wave - min_amplitude\<close>
  and the division allocate a new array each. The source has no augmented assignment,
  no \<open>out=\<close> argument and no item assignment, so the only change to the store is the
  allocation of the results (temporaries are unreachable after the call and left out).
\<close>

type_synonym addr = nat
type_synonym store = "npfloat list list"

record view =
  base :: addr
  count :: nat

definition read_view :: "store \<Rightarrow> view \<Rightarrow> npfloat list" where
  "read_view h v = take (count v) (h ! base v)"

definition alloc :: "store \<Rightarrow> npfloat list \<Rightarrow> addr \<times> store" where
  "alloc h xs = (length h, h @ [xs])"

fun alloc_all :: "store \<Rightarrow> npfloat list list \<Rightarrow> addr list \<times> store" where
  "alloc_all h [] = ([], h)"
| "alloc_all h (xs # xss) =
     (let (a, h1) = alloc h xs; (as, h2) = alloc_all h1 xss in (a # as, h2))"

definition normalize_waves_store :: "store \<Rightarrow> addr list \<Rightarrow> error + (addr list \<times> store)" where
  "normalize_waves_store h waves =
     (case py_min (map (\<lambda>wave. length (h ! wave)) waves) of
        Inl e \<Rightarrow> Inl e
      | Inr min_length_wave \<Rightarrow>
          (let trimmed_waves = map (\<lambda>wave. \<lparr>base = wave, count = min_length_wave\<rparr>) waves in
           (case np_amin (concat (map (read_view h) trimmed_waves)) of
              Inl e \<Rightarrow> Inl e
            | Inr min_amplitude \<Rightarrow>
                (case np_amax (concat (map (read_view h) trimmed_waves)) of
                   Inl e \<Rightarrow> Inl e
                 | Inr max_amplitude \<Rightarrow>
                     Inr (alloc_all h
                       (map (\<lambda>wave. map (\<lambda>x. np_divide (np_subtract x min_amplitude)
                                                    (np_subtract max_amplitude min_amplitude))
                                         (read_view h wave))
                            trimmed_waves))))))"

section \<open>The note table\<close>

lemma NOTES_keys_distinct: "distinct (map fst NOTES_items)"
  unfolding NOTES_items_def by simp

lemma NOTES_items_length: "length NOTES_items = 97"
  unfolding NOTES_items_def by simp

lemma dom_NOTES: "dom NOTES = set (map fst NOTES_items)"
  by (simp add: NOTES_def dom_map_of_conv_image_fst)

lemma card_dom_NOTES: "card (dom NOTES) = 97"
  using distinct_card [OF NOTES_keys_distinct] by (simp add: dom_NOTES NOTES_items_length)

lemma NOTES_silence: "NOTES ''0'' = Some 0"
  unfolding NOTES_def NOTES_items_def by simp

lemma NOTES_a4: "NOTES ''a4'' = Some 440"
  unfolding NOTES_def NOTES_items_def by simp

lemma NOTES_as4: "NOTES ''a#4'' = Some 466.1638"
  unfolding NOTES_def NOTES_items_def by simp

lemma NOTES_z9: "NOTES ''z9'' = None"
  unfolding NOTES_def NOTES_items_def by simp

lemma card_notes_without_silence: "card (dom NOTES - {''0''}) = 96"
proof -
  have "''0'' \<in> dom NOTES" using NOTES_silence by blast
  moreover have "finite (dom NOTES)" by (simp add: dom_NOTES)
  ultimately show ?thesis using card_dom_NOTES by (simp add: card_Diff_singleton)
qed

lemma NOTES_items_positive: "\<forall>(k, f) \<in> set NOTES_items. k \<noteq> ''0'' \<longrightarrow> 0 < f"
  unfolding NOTES_items_def by simp

lemma NOTES_positive:
  assumes "NOTES k = Some f" and "k \<noteq> ''0''"
  shows "0 < f"
proof -
  from assms(1) have "(k, f) \<in> set NOTES_items"
    unfolding NOTES_def by (auto dest: map_of_SomeD)
  with NOTES_items_positive assms(2) show ?thesis by blast
qed

text \<open>
  Claim C3, as stated: the table has exactly 88 note entries besides the silence entry
  \<open>"0"\<close>. The dict literal has twelve keys for each of the octaves 0 to 7, so the
  number of keys other than \<open>"0"\<close> is not 88.
\<close>

theorem NOTES_88_entries_counterexample: "card (dom NOTES - {''0''}) \<noteq> 88"
  using card_notes_without_silence by simp

text \<open>
  Claim C3, amended: the table has exactly 96 note entries besides the silence entry
  \<open>"0"\<close>, which maps to frequency 0, and every other entry maps to a strictly positive
  frequency. (The table is a constant of the class: no method assigns to it, and no
  operation of the embedding returns a table.)
\<close>

theorem NOTES_entries:
  "card (dom NOTES - {''0''}) = 96 \<and> NOTES ''0'' = Some 0 \<and>
   (\<forall>k f. NOTES k = Some f \<and> k \<noteq> ''0'' \<longrightarrow> 0 < f)"
  using card_notes_without_silence NOTES_silence NOTES_positive by blast

text \<open>The entry of \<open>a4\<close>, as an instance of C3's theorem.\<close>

theorem NOTES_entries_witness:
  "NOTES ''a4'' = Some 440 \<and> ''a4'' \<noteq> ''0'' \<and> (0::real) < 440"
  using NOTES_entries NOTES_a4 by simp

section \<open>Lookup of a note\<close>

text \<open>
  Claim C7: a note that is not a key of the table makes \<open>get_soundwave\<close>, and so
  \<open>create_note\<close>, fail with the lookup error (Python's KeyError) and no waveform;
  for a key of the table the lookup succeeds and both return.
\<close>

theorem unknown_note_lookup:
  "(NOTES note = None \<longrightarrow>
      get_soundwave timeline note = Inl (KeyError note) \<and>
      create_note note name tline fs = Inl (KeyError note)) \<and>
   (note \<in> dom NOTES \<longrightarrow>
      (\<exists>wave. get_soundwave timeline note = Inr wave) \<and>
      (\<exists>sound_wave fs'. create_note note name tline fs = Inr (sound_wave, fs')))"
  by (auto simp: get_soundwave_def create_note_def Let_def)

text \<open>C7 at the unknown note \<open>z9\<close> and at the known note \<open>a4\<close>.\<close>

theorem unknown_note_lookup_witness:
  "NOTES ''z9'' = None \<and> get_soundwave [0, 1] ''z9'' = Inl (KeyError ''z9'') \<and>
   create_note ''z9'' None None Map.empty = Inl (KeyError ''z9'') \<and>
   ''a4'' \<in> dom NOTES \<and> (\<exists>wave. get_soundwave [0, 1] ''a4'' = Inr wave)"
  using unknown_note_lookup [of "''z9''" "[0, 1]" None None Map.empty]
    unknown_note_lookup [of "''a4''" "[0, 1]" None None Map.empty] NOTES_z9 NOTES_a4
  by auto

section \<open>The file written by \<open>create_note\<close>\<close>

lemma astype_int16_0: "astype_int16 0 = 0"
  by (simp add: astype_int16_def trunc_toward_zero_def)

text \<open>
  Claim C6: a call of \<open>create_note\<close> that returns has written the quantized wave to
  \<open><name>.wav\<close> when a name is given, and otherwise to \<open><note>_sin.wav\<close> with every
  \<open>#\<close> replaced by \<open>s\<close>; nothing else in the file system changes.
\<close>

theorem create_note_file_name:
  "create_note note name timeline fs = Inr (sound_wave, fs') \<Longrightarrow>
   fs' = fs((case name of
               Some n \<Rightarrow> n @ ''.wav''
             | None \<Rightarrow> map (\<lambda>c. if c = CHR ''#'' then CHR ''s'' else c) note @ ''_sin.wav'')
            \<mapsto> WavFile 44100 sound_wave)"
  by (auto simp: create_note_def Let_def replace_hash_def SAMPLING_RATE_def
           split: sum.splits option.splits)

text \<open>C6 for the note \<open>a#4\<close> without a name, and for \<open>a4\<close> with the name \<open>la\<close>.\<close>

theorem create_note_file_name_witness:
  "create_note ''a#4'' None (Some [0]) Map.empty =
     Inr ([0], [''as4_sin.wav'' \<mapsto> WavFile 44100 [0]]) \<and>
   create_note ''a4'' (Some ''la'') (Some [0]) Map.empty =
     Inr ([0], [''la.wav'' \<mapsto> WavFile 44100 [0]])"
proof -
  have h1: "create_note ''a#4'' None (Some [0]) Map.empty =
      Inr ([0], [replace_hash ''a#4_sin.wav'' \<mapsto> WavFile SAMPLING_RATE [0]])"
    by (simp add: create_note_def get_soundwave_def get_normed_sin_def NOTES_as4
          astype_int16_0 Let_def)
  have h2: "create_note ''a4'' (Some ''la'') (Some [0]) Map.empty =
      Inr ([0], [''la.wav'' \<mapsto> WavFile SAMPLING_RATE [0]])"
    by (simp add: create_note_def get_soundwave_def get_normed_sin_def NOTES_a4
          astype_int16_0 Let_def)
  show ?thesis
    using h1 h2 create_note_file_name [OF h1] create_note_file_name [OF h2] by simp
qed

section \<open>Synthesis: length and range of the samples\<close>

lemma length_linspace: "length (linspace a b n) = n"
  by (simp add: linspace_def)

lemma length_common_timeline: "length common_timeline = 220500"
  by (simp add: common_timeline_def length_linspace SOUND_ARRAY_LEN_def SAMPLING_RATE_def
        DURATION_SECONDS_def)

lemma length_get_normed_sin: "length (get_normed_sin timeline f) = length timeline"
  by (simp add: get_normed_sin_def)

lemma get_normed_sin_range:
  assumes "x \<in> set (get_normed_sin timeline f)"
  shows "- 8192 \<le> x \<and> x \<le> 8192"
proof -
  from assms obtain t where x: "x = 8192 * sin (2 * pi * f * t)"
    by (auto simp: get_normed_sin_def MAX_AMPLITUDE_def)
  have "- 1 \<le> sin (2 * pi * f * t)" "sin (2 * pi * f * t) \<le> 1"
    by (rule sin_ge_minus_one, rule sin_le_one)
  with x show ?thesis by simp
qed

lemma trunc_toward_zero_range:
  assumes "- 8192 \<le> x" and "x \<le> 8192"
  shows "- 8192 \<le> trunc_toward_zero x \<and> trunc_toward_zero x \<le> 8192"
proof (cases "0 \<le> x")
  case True
  then have "0 \<le> \<lfloor>x\<rfloor>" by simp
  moreover from assms(2) have "\<lfloor>x\<rfloor> \<le> 8192" by (simp add: floor_le_iff)
  ultimately show ?thesis using True by (simp add: trunc_toward_zero_def)
next
  case False
  then have "\<lceil>x\<rceil> \<le> 0" by (simp add: ceiling_le_iff)
  moreover from assms(1) have "- 8192 \<le> \<lceil>x\<rceil>" by (simp add: le_ceiling_iff)
  ultimately show ?thesis using False by (simp add: trunc_toward_zero_def)
qed

lemma sint_astype_int16:
  assumes "- 8192 \<le> x" and "x \<le> 8192"
  shows "sint (astype_int16 x) = trunc_toward_zero x"
proof -
  from trunc_toward_zero_range [OF assms]
  have "- (2 ^ (LENGTH(16) - 1)) \<le> trunc_toward_zero x"
    and "trunc_toward_zero x < 2 ^ (LENGTH(16) - 1)" by simp_all
  then have "signed_take_bit (LENGTH(16) - 1) (trunc_toward_zero x) = trunc_toward_zero x"
    by (rule signed_take_bit_int_eq_self)
  then show ?thesis unfolding astype_int16_def by (simp only: sint_sbintrunc')
qed

lemma quarter_period: "2 * pi * 440 * (1 / 1760) = pi / 2"
  by simp

lemma astype_int16_8192: "astype_int16 8192 = 8192"
  by (simp add: astype_int16_def trunc_toward_zero_def)

lemma create_note_a4_at_0:
  "create_note ''a4'' None (Some [0]) Map.empty =
     Inr ([0], [''a4_sin.wav'' \<mapsto> WavFile 44100 [0]])"
  by (simp add: create_note_def get_soundwave_def get_normed_sin_def NOTES_a4 Let_def
        astype_int16_0 replace_hash_def SAMPLING_RATE_def)

text \<open>
  Claim C8: for every key of the table, synthesis over the default timeline returns a
  float waveform of the length of that timeline, 44100 * 5 = 220500 samples, each in
  [-8192, 8192]; and a waveform returned by \<open>get_soundwave\<close> or \<open>create_note\<close> has
  the length of the timeline it was generated from.
\<close>

theorem synthesis_length_and_range:
  "(note \<in> dom NOTES \<longrightarrow>
      (\<exists>wave. get_soundwave common_timeline note = Inr wave \<and>
              length wave = length common_timeline \<and> length wave = 44100 * 5 \<and>
              (\<forall>x \<in> set wave. - 8192 \<le> x \<and> x \<le> 8192))) \<and>
   (get_soundwave timeline note = Inr wave' \<longrightarrow> length wave' = length timeline) \<and>
   (create_note note name tline fs = Inr (sound_wave, fs') \<longrightarrow>
      length sound_wave = length (case tline of None \<Rightarrow> common_timeline | Some t \<Rightarrow> t))"
  by (auto simp: get_soundwave_def create_note_def Let_def length_get_normed_sin
        length_common_timeline dest: get_normed_sin_range split: option.splits)

text \<open>C8 at the note \<open>a4\<close>: over the default timeline, and over the timeline \<open>[0]\<close>.\<close>

theorem synthesis_length_and_range_witness:
  "''a4'' \<in> dom NOTES \<and>
   (\<exists>wave. get_soundwave common_timeline ''a4'' = Inr wave \<and>
           length wave = length common_timeline \<and> length wave = 44100 * 5 \<and>
           (\<forall>x \<in> set wave. - 8192 \<le> x \<and> x \<le> 8192)) \<and>
   get_soundwave [0] ''a4'' = Inr [0] \<and> length [0 :: real] = length [0 :: real] \<and>
   create_note ''a4'' None (Some [0]) Map.empty =
     Inr ([0], [''a4_sin.wav'' \<mapsto> WavFile 44100 [0]]) \<and>
   length [0 :: 16 word] = length [0 :: real]"
proof -
  have k: "''a4'' \<in> dom NOTES" using NOTES_a4 by blast
  have g: "get_soundwave [0] ''a4'' = Inr [0]"
    by (simp add: get_soundwave_def get_normed_sin_def NOTES_a4)
  show ?thesis
    using k g create_note_a4_at_0
      synthesis_length_and_range [of "''a4''" "[0]" "[0]" None "Some [0]" Map.empty "[0]"
        "[''a4_sin.wav'' \<mapsto> WavFile 44100 [0]]"]
    by simp
qed

text \<open>
  Claim C4, as stated: every sample of the 16-bit waveform of \<open>create_note\<close> is at most
  8191. At a quarter period of \<open>a4\<close> (440 Hz, t = 1/1760 s) the sine is 1, the float
  sample is 8192 and so is the quantized one.
\<close>

theorem create_note_8191_counterexample:
  "create_note ''a4'' None (Some [1 / 1760]) Map.empty =
     Inr ([8192], [''a4_sin.wav'' \<mapsto> WavFile 44100 [8192]]) \<and>
   \<not> sint (8192 :: 16 word) \<le> 8191"
  by (simp add: create_note_def get_soundwave_def get_normed_sin_def NOTES_a4 Let_def
        MAX_AMPLITUDE_def astype_int16_8192 replace_hash_def SAMPLING_RATE_def)

text \<open>
  Claim C4, amended: for every note of the table and every timeline, every sample of
  the 16-bit waveform returned by \<open>create_note\<close> lies in [-8192, 8192].
\<close>

theorem create_note_sample_range:
  assumes "create_note note name tline fs = Inr (sound_wave, fs')"
  shows "\<forall>x \<in> set sound_wave. - 8192 \<le> sint x \<and> sint x \<le> 8192"
proof
  fix x assume "x \<in> set sound_wave"
  with assms obtain timeline f y where y: "y \<in> set (get_normed_sin timeline f)"
    and x: "x = astype_int16 y"
    by (auto simp: create_note_def get_soundwave_def Let_def split: option.splits)
  from get_normed_sin_range [OF y] have r: "- 8192 \<le> y" "y \<le> 8192" by simp_all
  from sint_astype_int16 [OF r] trunc_toward_zero_range [OF r] x
  show "- 8192 \<le> sint x \<and> sint x \<le> 8192" by simp
qed

text \<open>C4 for the note \<open>a4\<close> on the timeline \<open>[0]\<close>.\<close>

theorem create_note_sample_range_witness:
  "create_note ''a4'' None (Some [0]) Map.empty =
     Inr ([0], [''a4_sin.wav'' \<mapsto> WavFile 44100 [0]]) \<and>
   - 8192 \<le> sint (0 :: 16 word) \<and> sint (0 :: 16 word) \<le> 8192"
  using create_note_a4_at_0 create_note_sample_range [OF create_note_a4_at_0] by simp

section \<open>Normalization\<close>

text \<open>
  Claim C9: \<open>normalize_waves()\<close> with no waveform fails (ValueError, from \<open>min\<close> of
  the empty list of lengths); it does not return an empty list.
\<close>

theorem normalize_waves_no_arguments: "normalize_waves [] = Inl ValueError"
  by (simp add: normalize_waves_def)

subsection \<open>Finite waveforms\<close>

text \<open>
  A float64 waveform without \<open>nan\<close> and infinities is a list of reals \<open>w\<close>, passed as
  \<open>map Fin w\<close>. On such inputs the reductions are the minimum and maximum of the
  samples; the subtractions can overflow and the division can divide by zero.
\<close>

lemma FLOAT64_OVERFLOW_gt_1: "1 < FLOAT64_OVERFLOW"
  by (simp add: FLOAT64_OVERFLOW_def)

lemma float64_result_Fin:
  "- FLOAT64_OVERFLOW < r \<Longrightarrow> r < FLOAT64_OVERFLOW \<Longrightarrow> float64_result r = Fin r"
  by (simp add: float64_result_def)

lemma float64_result_0: "float64_result 0 = Fin 0"
  using FLOAT64_OVERFLOW_gt_1 by (simp add: float64_result_def)

lemma foldl_min_fold: "foldl min (n :: nat) ns = fold min ns n"
  by (induction ns arbitrary: n) (simp_all add: min.commute)

lemma py_min_Min: "ns \<noteq> [] \<Longrightarrow> py_min ns = Inr (Min (set ns))"
  by (cases ns) (simp_all add: foldl_min_fold Min.set_eq_fold del: set_simps)

lemma foldl_np_minimum_Fin: "foldl np_minimum (Fin x) (map Fin xs) = Fin (fold min xs x)"
  by (induction xs arbitrary: x) (simp_all add: np_minimum_def min_def)

lemma foldl_np_maximum_Fin: "foldl np_maximum (Fin x) (map Fin xs) = Fin (fold max xs x)"
  by (induction xs arbitrary: x) (simp_all add: np_maximum_def max_def)

lemma np_amin_Fin: "xs \<noteq> [] \<Longrightarrow> np_amin (map Fin xs) = Inr (Fin (Min (set xs)))"
  by (cases xs) (simp_all add: foldl_np_minimum_Fin Min.set_eq_fold del: set_simps)

lemma np_amax_Fin: "xs \<noteq> [] \<Longrightarrow> np_amax (map Fin xs) = Inr (Fin (Max (set xs)))"
  by (cases xs) (simp_all add: foldl_np_maximum_Fin Max.set_eq_fold del: set_simps)

lemma concat_trimmed_Fin:
  "concat (map (take k) (map (map Fin) ws)) = map Fin (concat (map (take k) ws))"
  by (simp add: map_concat take_map comp_def)

lemma normalize_waves_Fin:
  assumes "ws \<noteq> []" and "k = Min (set (map length ws))"
    and "xs = concat (map (take k) ws)" and "xs \<noteq> []"
    and "lo = Min (set xs)" and "hi = Max (set xs)"
  shows "normalize_waves (map (map Fin) ws) =
     Inr (map (\<lambda>w. map (\<lambda>x. np_divide (float64_result (x - lo)) (float64_result (hi - lo)))
                      (take k w)) ws)"
proof -
  have a: "map length (map (map Fin) ws) = map length ws" by (simp add: comp_def)
  from assms(1) have b: "py_min (map length ws) = Inr (Min (set (map length ws)))"
    by (intro py_min_Min) simp
  have 1: "py_min (map length (map (map Fin) ws)) = Inr k"
    unfolding a assms(2) by (rule b)
  have 2: "concat (map (take k) (map (map Fin) ws)) = map Fin xs"
    unfolding assms(3) by (rule concat_trimmed_Fin)
  have 3: "np_amin (map Fin xs) = Inr (Fin lo)"
    unfolding assms(5) using assms(4) by (rule np_amin_Fin)
  have 4: "np_amax (map Fin xs) = Inr (Fin hi)"
    unfolding assms(6) using assms(4) by (rule np_amax_Fin)
  have 5: "map (map (\<lambda>x. np_divide (np_subtract x (Fin lo)) (np_subtract (Fin hi) (Fin lo))))
             (map (take k) (map (map Fin) ws)) =
           map (\<lambda>w. map (\<lambda>x. np_divide (float64_result (x - lo)) (float64_result (hi - lo)))
                        (take k w)) ws"
    by (simp add: take_map comp_def)
  show ?thesis
    unfolding normalize_waves_def 1 by (simp only: sum.case Let_def 2 3 4 5)
qed

lemma normalize_waves_overflow:
  "normalize_waves [[Fin (2 ^ 1023), Fin (- (2 ^ 1023)), Fin 0]] = Inr [[NaN, Fin 0, Fin 0]]"
  by (simp add: normalize_waves_def np_minimum_def np_maximum_def float64_result_def
        FLOAT64_OVERFLOW_def)

lemma normalize_waves_int16_wraps:
  "normalize_waves_int16 [[- 20000, 20000, 0]] = Inr [[Fin 0, Fin 1, Fin (- (625 / 798))]]"
  by (simp add: normalize_waves_int16_def float64_result_def FLOAT64_OVERFLOW_def)

text \<open>
  Claim C1, as stated: whenever the maximum of the trimmed samples exceeds their
  minimum, every sample \<open>x\<close> is mapped to \<open>(x - lo) / (hi - lo)\<close>, a value in [0, 1],
  and the maximal sample to 1. On the float64 waveform \<open>[2^1023, -2^1023, 0]\<close> the
  range \<open>hi - lo\<close> overflows to infinity: the maximal sample is mapped to \<open>nan\<close> and
  the sample 0 to 0, not to 1/2. On the int16 waveform \<open>[-20000, 20000, 0]\<close> the
  subtractions wrap around: the sample 0 is mapped to a negative number.
\<close>

theorem normalize_waves_formula_counterexample:
  "normalize_waves [[Fin (2 ^ 1023), Fin (- (2 ^ 1023)), Fin 0]] = Inr [[NaN, Fin 0, Fin 0]] \<and>
   (- (2 ^ 1023) :: real) < 2 ^ 1023 \<and>
   normalize_waves_int16 [[- 20000, 20000, 0]] = Inr [[Fin 0, Fin 1, Fin (- (625 / 798))]] \<and>
   sint (- 20000 :: 16 word) < sint (20000 :: 16 word) \<and> - (625 / 798) < (0 :: real)"
  using normalize_waves_overflow normalize_waves_int16_wraps by simp

text \<open>
  Claim C1, amended: for \<open>n \<ge> 1\<close> float64 waveforms of finite samples whose trimmed
  samples \<open>xs\<close> have a maximum \<open>hi\<close> strictly above their minimum \<open>lo\<close> and a range
  \<open>hi - lo\<close> that does not overflow (it is below \<open>2^1024 - 2^970\<close>),
  \<open>normalize_waves\<close> returns the \<open>n\<close> waveforms truncated to the minimum length \<open>k\<close>
  with each sample \<open>x\<close> mapped to \<open>(x - lo) / (hi - lo)\<close> (up to the rounding of
  float64, which is not modelled); every such value lies in [0, 1], the minimal
  sample is mapped to 0 and the maximal one to 1.
\<close>

theorem normalize_waves_formula:
  fixes ws :: "real list list"
  assumes "ws \<noteq> []" and "k = Min (set (map length ws))"
    and "xs = concat (map (take k) ws)" and "xs \<noteq> []"
    and "lo = Min (set xs)" and "hi = Max (set xs)" and "lo < hi"
    and "hi - lo < FLOAT64_OVERFLOW"
  shows "normalize_waves (map (map Fin) ws) =
           Inr (map (\<lambda>w. map (\<lambda>x. Fin ((x - lo) / (hi - lo))) (take k w)) ws) \<and>
         (\<forall>x \<in> set xs. 0 \<le> (x - lo) / (hi - lo) \<and> (x - lo) / (hi - lo) \<le> 1) \<and>
         lo \<in> set xs \<and> (lo - lo) / (hi - lo) = 0 \<and>
         hi \<in> set xs \<and> (hi - lo) / (hi - lo) = 1"
proof -
  from assms(7) have d: "hi - lo \<noteq> 0" "0 < hi - lo" by simp_all
  have p: "0 < FLOAT64_OVERFLOW" using FLOAT64_OVERFLOW_gt_1 by simp
  have b: "0 \<le> (x - lo) / (hi - lo) \<and> (x - lo) / (hi - lo) \<le> 1" if "x \<in> set xs" for x
  proof -
    from that have "lo \<le> x" "x \<le> hi" unfolding assms(5,6) by simp_all
    with d show ?thesis by simp
  qed
  have h: "float64_result (hi - lo) = Fin (hi - lo)"
    using d(2) assms(8) p by (intro float64_result_Fin) simp_all
  have el: "np_divide (float64_result (x - lo)) (float64_result (hi - lo)) =
            Fin ((x - lo) / (hi - lo))" if x: "x \<in> set xs" for x
  proof -
    from x have "lo \<le> x" "x \<le> hi" unfolding assms(5,6) by simp_all
    with assms(8) p have "float64_result (x - lo) = Fin (x - lo)"
      by (intro float64_result_Fin) simp_all
    moreover from b [OF x] FLOAT64_OVERFLOW_gt_1
    have "float64_result ((x - lo) / (hi - lo)) = Fin ((x - lo) / (hi - lo))"
      by (intro float64_result_Fin) simp_all
    ultimately show ?thesis using h d(1) by simp
  qed
  have "map (\<lambda>x. np_divide (float64_result (x - lo)) (float64_result (hi - lo))) (take k w) =
        map (\<lambda>x. Fin ((x - lo) / (hi - lo))) (take k w)" if w: "w \<in> set ws" for w
  proof -
    have "set (take k w) \<subseteq> set xs" using w unfolding assms(3) by auto
    then show ?thesis using el by (intro map_cong) auto
  qed
  then have "map (\<lambda>w. map (\<lambda>x. np_divide (float64_result (x - lo)) (float64_result (hi - lo)))
                        (take k w)) ws =
             map (\<lambda>w. map (\<lambda>x. Fin ((x - lo) / (hi - lo))) (take k w)) ws"
    by (intro map_cong) simp_all
  with normalize_waves_Fin [OF assms(1-6)]
  have r: "normalize_waves (map (map Fin) ws) =
           Inr (map (\<lambda>w. map (\<lambda>x. Fin ((x - lo) / (hi - lo))) (take k w)) ws)"
    by simp
  from assms(4) have m: "lo \<in> set xs" "hi \<in> set xs"
    unfolding assms(5,6) by (simp_all del: set_concat)
  from r b m d show ?thesis by simp
qed

text \<open>C1 on two waveforms of lengths 3 and 2: minimum 0, maximum 4.\<close>

theorem normalize_waves_formula_witness:
  "normalize_waves [[Fin 1, Fin 2, Fin 3], [Fin 0, Fin 4]] =
     Inr [[Fin (1 / 4), Fin (1 / 2)], [Fin 0, Fin 1]]"
proof -
  have "normalize_waves (map (map Fin) [[1, 2, 3], [0, 4]]) =
          Inr (map (\<lambda>w. map (\<lambda>x. Fin ((x - 0) / (4 - 0))) (take 2 w)) [[1, 2, 3], [0, 4]]) \<and>
        (\<forall>x \<in> set [1, 2, 0, 4 :: real]. 0 \<le> (x - 0) / (4 - 0) \<and> (x - 0) / (4 - 0) \<le> 1) \<and>
        0 \<in> set [1, 2, 0, 4 :: real] \<and> (0 - 0) / (4 - 0) = (0 :: real) \<and>
        4 \<in> set [1, 2, 0, 4 :: real] \<and> (4 - 0) / (4 - 0) = (1 :: real)"
    by (rule normalize_waves_formula) (simp_all add: FLOAT64_OVERFLOW_def)
  then show ?thesis by simp
qed

text \<open>
  Claim C2, as stated: when the maximum of the trimmed samples equals their minimum the
  call fails with a division-by-zero error. numpy's division does not raise: the call
  returns, and every sample is \<open>0 / 0 = nan\<close>.
\<close>

theorem normalize_waves_degenerate_counterexample:
  "normalize_waves [[Fin 1, Fin 1], [Fin 1]] = Inr [[NaN], [NaN]] \<and>
   \<not> isl (normalize_waves [[Fin 1, Fin 1], [Fin 1]])"
  by (simp add: normalize_waves_def np_minimum_def np_maximum_def float64_result_0)

text \<open>
  Claim C2, amended: for \<open>n \<ge> 1\<close> finite waveforms whose trimmed samples are not
  empty and have a maximum equal to their minimum, \<open>normalize_waves\<close> raises no error
  and returns \<open>n\<close> waveforms of the minimum length \<open>k\<close> in which every sample is
  \<open>nan\<close>; the degenerate range is not guarded.
\<close>

theorem normalize_waves_degenerate:
  fixes ws :: "real list list"
  assumes "ws \<noteq> []" and "k = Min (set (map length ws))"
    and "xs = concat (map (take k) ws)" and "xs \<noteq> []"
    and "Min (set xs) = Max (set xs)"
  shows "normalize_waves (map (map Fin) ws) = Inr (map (\<lambda>w. replicate k NaN) ws)"
proof -
  define lo where "lo = Min (set xs)"
  define hi where "hi = Max (set xs)"
  have e: "hi = lo" using assms(5) by (simp add: lo_def hi_def)
  have c: "x = lo" if "x \<in> set xs" for x
  proof -
    from that have "lo \<le> x" "x \<le> hi" unfolding lo_def hi_def by simp_all
    with e show ?thesis by simp
  qed
  have "map (\<lambda>x. np_divide (float64_result (x - lo)) (float64_result (hi - lo))) (take k w) =
        replicate k NaN"
    if w: "w \<in> set ws" for w
  proof -
    from w have "k \<le> length w" unfolding assms(2) by simp
    then have l: "length (take k w) = k" by simp
    have "set (take k w) \<subseteq> set xs" using w unfolding assms(3) by auto
    then have "\<forall>x \<in> set (take k w).
                 np_divide (float64_result (x - lo)) (float64_result (hi - lo)) = NaN"
      using c e by (auto simp: float64_result_0)
    then have "map (\<lambda>x. np_divide (float64_result (x - lo)) (float64_result (hi - lo)))
                 (take k w) =
               map (\<lambda>x. NaN) (take k w)"
      by (intro map_cong) simp_all
    also have "\<dots> = replicate k NaN" using l by (simp add: map_replicate_const)
    finally show ?thesis .
  qed
  then have "map (\<lambda>w. map (\<lambda>x. np_divide (float64_result (x - lo)) (float64_result (hi - lo)))
                        (take k w)) ws =
             map (\<lambda>w. replicate k NaN) ws"
    by (intro map_cong) simp_all
  with normalize_waves_Fin [OF assms(1-4) lo_def hi_def] show ?thesis by simp
qed

text \<open>C2 on two constant waveforms after truncation to length 2.\<close>

theorem normalize_waves_degenerate_witness:
  "normalize_waves [[Fin 2, Fin 2, Fin 5], [Fin 2, Fin 2]] = Inr [[NaN, NaN], [NaN, NaN]]"
proof -
  have "normalize_waves (map (map Fin) [[2, 2, 5], [2, 2]]) =
          Inr (map (\<lambda>w. replicate 2 NaN) [[2, 2, 5], [2, 2 :: real]])"
    by (rule normalize_waves_degenerate [where xs = "[2, 2, 2, 2]"]) simp_all
  then show ?thesis by (simp add: numeral_2_eq_2)
qed

subsection \<open>The arguments are left as they were\<close>

text \<open>
  On the store, the method is the method on values: it fails when that one fails, and
  otherwise appends the resulting waveforms to the store and returns their addresses.
\<close>

lemma alloc_all_append:
  "alloc_all h xss = ([length h ..< length h + length xss], h @ xss)"
proof (induction xss arbitrary: h)
  case Nil
  then show ?case by simp
next
  case (Cons xs xss)
  have a: "alloc_all (h @ [xs]) xss =
           ([Suc (length h) ..< Suc (length h) + length xss], h @ xs # xss)"
    using Cons [of "h @ [xs]"] by simp
  have u: "[length h ..< length h + length (xs # xss)] =
           length h # [Suc (length h) ..< Suc (length h) + length xss]"
    using upt_conv_Cons [of "length h" "length h + length (xs # xss)"] by simp
  show ?case
    unfolding u by (simp only: alloc_all.simps alloc_def Let_def a prod.case)
qed

lemma read_trimmed_views:
  "map (read_view h) (map (\<lambda>wave. \<lparr>base = wave, count = k\<rparr>) waves) =
   map (take k) (map ((!) h) waves)"
  by (simp add: read_view_def comp_def)

lemma map_read_trimmed_views:
  "map (\<lambda>wave. map f (read_view h wave)) (map (\<lambda>wave. \<lparr>base = wave, count = k\<rparr>) waves) =
   map (map f) (map (take k) (map ((!) h) waves))"
  by (simp add: read_view_def comp_def)

lemma normalize_waves_store_refines:
  "normalize_waves_store h waves =
     map_sum id (\<lambda>rs. ([length h ..< length h + length rs], h @ rs))
       (normalize_waves (map ((!) h) waves))"
proof -
  have l: "map (\<lambda>wave. length (h ! wave)) waves = map length (map ((!) h) waves)"
    by (simp add: comp_def)
  show ?thesis
  proof (cases "py_min (map length (map ((!) h) waves))")
    case (Inl e)
    then show ?thesis
      unfolding normalize_waves_store_def normalize_waves_def l
      by (simp only: sum.case map_sum.simps id_apply)
  next
    case k: (Inr k)
    show ?thesis
    proof (cases "np_amin (concat (map (take k) (map ((!) h) waves)))")
      case (Inl e)
      then show ?thesis
        unfolding normalize_waves_store_def normalize_waves_def l k Let_def
          read_trimmed_views
        by (simp only: sum.case map_sum.simps id_apply)
    next
      case lo: (Inr lo)
      show ?thesis
      proof (cases "np_amax (concat (map (take k) (map ((!) h) waves)))")
        case (Inl e)
        then show ?thesis
          unfolding normalize_waves_store_def normalize_waves_def l k Let_def
            read_trimmed_views
          by (simp only: sum.case map_sum.simps id_apply lo)
      next
        case (Inr hi)
        then show ?thesis
          unfolding normalize_waves_store_def normalize_waves_def l k Let_def
            read_trimmed_views map_read_trimmed_views
          by (simp only: sum.case map_sum.simps id_apply lo alloc_all_append)
      qed
    qed
  qed
qed

text \<open>
  Claim C10: \<open>normalize_waves\<close> never modifies its input waveforms. After a call that
  returns, every array that existed before the call (the arguments among them) holds the
  samples it held before; the results are arrays allocated by the call, and their
  contents are the waveforms computed from the arguments. (A call that raises returns
  no store: nothing was written.)
\<close>

theorem normalize_waves_store_frame:
  assumes "normalize_waves_store h waves = Inr (results, h')"
  shows "length h \<le> length h' \<and> (\<forall>a < length h. h' ! a = h ! a) \<and>
         (\<forall>r \<in> set results. length h \<le> r \<and> r < length h') \<and>
         normalize_waves (map ((!) h) waves) = Inr (map ((!) h') results)"
proof -
  from assms obtain rs where n: "normalize_waves (map ((!) h) waves) = Inr rs"
    and r: "results = [length h ..< length h + length rs]" and h': "h' = h @ rs"
    unfolding normalize_waves_store_refines
    by (cases "normalize_waves (map ((!) h) waves)") auto
  have 1: "length h \<le> length h'" unfolding h' by simp
  have 2: "\<forall>a < length h. h' ! a = h ! a" unfolding h' by (simp add: nth_append)
  have 3: "\<forall>r \<in> set results. length h \<le> r \<and> r < length h'" unfolding r h' by simp
  have "map ((!) h') results = rs"
    unfolding r h' by (rule nth_equalityI) (simp_all add: nth_append)
  with n have 4: "normalize_waves (map ((!) h) waves) = Inr (map ((!) h') results)"
    by simp
  from 1 2 3 4 show ?thesis by blast
qed

text \<open>C10 on a store of two arrays, both passed as arguments.\<close>

theorem normalize_waves_store_frame_witness:
  "normalize_waves_store [[Fin 1, Fin 2, Fin 3], [Fin 0, Fin 4]] [0, 1] =
     Inr ([2, 3], [[Fin 1, Fin 2, Fin 3], [Fin 0, Fin 4],
                   [Fin (1 / 4), Fin (1 / 2)], [Fin 0, Fin 1]]) \<and>
   [[Fin 1, Fin 2, Fin 3], [Fin 0, Fin 4], [Fin (1 / 4), Fin (1 / 2)], [Fin 0, Fin 1]] ! 0 =
     [Fin 1, Fin 2, Fin 3] \<and>
   [[Fin 1, Fin 2, Fin 3], [Fin 0, Fin 4], [Fin (1 / 4), Fin (1 / 2)], [Fin 0, Fin 1]] ! 1 =
     [Fin 0, Fin 4]"
proof -
  have c: "normalize_waves_store [[Fin 1, Fin 2, Fin 3], [Fin 0, Fin 4]] [0, 1] =
     Inr ([2, 3], [[Fin 1, Fin 2, Fin 3], [Fin 0, Fin 4],
                   [Fin (1 / 4), Fin (1 / 2)], [Fin 0, Fin 1]])"
    by (simp add: normalize_waves_store_def read_view_def np_minimum_def np_maximum_def
          alloc_def Let_def float64_result_def FLOAT64_OVERFLOW_def)
  note f = normalize_waves_store_frame [OF c, THEN conjunct2, THEN conjunct1, rule_format]
  show ?thesis using c f [of 0] f [of 1] by simp
qed

section \<open>Saving as text and reading back\<close>





end
